theory Spec2Isabelle
  imports Main "HOL-Library.Sublist"
begin

section \<open>Bytes\<close>

text \<open>
  A Go \<open>[]byte\<close> and a Go \<open>string\<close> are both sequences of 8-bit bytes; they are modelled
  as \<open>string\<close> (a list of 8-bit \<open>char\<close>).
\<close>

definition newline :: char where
  "newline = CHR 0x0A"

text \<open>
  \<open>bytes.Index(s, sep)\<close> of the Go library: the index of the first instance of \<open>sep\<close> in
  \<open>s\<close>, or \<open>-1\<close> when \<open>sep\<close> does not occur.
\<close>

fun bytes_Index :: "string \<Rightarrow> string \<Rightarrow> int" where
  "bytes_Index [] sep = (if sep = [] then 0 else -1)"
| "bytes_Index (b # bs) sep =
     (if prefix sep (b # bs) then 0
      else (let i = bytes_Index bs sep in if i = -1 then -1 else i + 1))"

section \<open>NoticeReceiver\<close>

text \<open>
  The receiver of \<open>notice.go\<close> holds a byte buffer and a callback. The callback is a Go
  function value called for its effect; the model records that effect as the list of the
  byte sequences the callback has been invoked with, oldest first. The mutex is held for
  the whole of \<open>Write\<close>, so one call is one atomic step of the model.
\<close>

record NoticeReceiver =
  buffer :: string
  calls :: "string list"

definition NewNoticeReceiver :: NoticeReceiver where
  "NewNoticeReceiver = \<lparr>buffer = [], calls = []\<rparr>"

text \<open>Go's \<open>error\<close> result: \<open>None\<close> is \<open>nil\<close>.\<close>

datatype error = Error string

text \<open>
  \<open>Write\<close> appends the chunk, looks for the first newline once, and when there is one
  passes the bytes before it to the callback and keeps the bytes after it. The slices
  \<open>buffer[:index]\<close> and \<open>buffer[index+1:]\<close> are in range, since
  \<open>0 \<le> index < len(buffer)\<close> on that branch.
\<close>

definition Write :: "string \<Rightarrow> NoticeReceiver \<Rightarrow> (int \<times> error option) \<times> NoticeReceiver" where
  "Write p receiver =
     (let buf = buffer receiver @ p;
          index = bytes_Index buf [newline]
      in if index = -1 then ((int (length p), None), receiver\<lparr>buffer := buf\<rparr>)
         else
           (let notice = take (nat index) buf
            in ((int (length p), None),
                receiver\<lparr>buffer := drop (nat (index + 1)) buf,
                          calls := calls receiver @ [notice]\<rparr>)))"

text \<open>A sequence of \<open>Write\<close> calls on one receiver, in order.\<close>

fun WriteAll :: "string list \<Rightarrow> NoticeReceiver \<Rightarrow> NoticeReceiver" where
  "WriteAll [] receiver = receiver"
| "WriteAll (p # ps) receiver = WriteAll ps (snd (Write p receiver))"

section \<open>Properties of the receiver\<close>

lemma bytes_Index_newline_ge: "- 1 \<le> bytes_Index s [newline]"
  by (induction s) (auto simp: Let_def)

lemma bytes_Index_newline_none:
  "bytes_Index s [newline] = - 1 \<longleftrightarrow> newline \<notin> set s"
proof (induction s)
  case Nil
  show ?case by simp
next
  case (Cons b bs)
  have "bytes_Index bs [newline] + 1 \<noteq> - 1"
    using bytes_Index_newline_ge [of bs] by arith
  with Cons show ?case by (auto simp: Let_def)
qed

lemma bytes_Index_newline_first:
  "newline \<notin> set r \<Longrightarrow> bytes_Index (r @ newline # rest) [newline] = int (length r)"
proof (induction r)
  case Nil
  show ?case by simp
next
  case (Cons b bs)
  then show ?case by (auto simp: Let_def)
qed

lemma Write_no_newline:
  "newline \<notin> set (buffer receiver @ p) \<Longrightarrow>
     snd (Write p receiver) = receiver\<lparr>buffer := buffer receiver @ p\<rparr>"
  using bytes_Index_newline_none [of "buffer receiver @ p"]
  by (simp add: Write_def Let_def)

lemma Write_first_record:
  "buffer receiver @ p = r @ newline # rest \<Longrightarrow> newline \<notin> set r \<Longrightarrow>
     snd (Write p receiver) = receiver\<lparr>buffer := rest, calls := calls receiver @ [r]\<rparr>"
  using bytes_Index_newline_first [of r rest]
  by (simp add: Write_def Let_def nat_add_distrib)

text \<open>
  Claim C1, evaluated on the code. One call carrying two newline-terminated records,
  \<open>a\<close> and \<open>b\<close>, on a fresh receiver invokes the callback once, with \<open>a\<close>; the second
  record stays in the buffer with its delimiter, although the concatenated input holds
  two complete records.
\<close>

theorem Write_two_records_one_call:
  "calls (WriteAll [''a\<newline>b\<newline>''] NewNoticeReceiver) = [''a'']
   \<and> buffer (WriteAll [''a\<newline>b\<newline>''] NewNoticeReceiver) = ''b\<newline>''"
  by (simp add: Write_def NewNoticeReceiver_def newline_def Let_def)

text \<open>
  Claim C7, evaluated on the code. After the call of C1 the buffer still holds a
  delimiter; the next chunk, \<open>c\<close>, contains no delimiter, yet the call carrying it invokes
  the callback (with the record \<open>b\<close> left behind by the earlier call).
\<close>

theorem Write_no_delimiter_chunk_dispatches:
  "newline \<notin> set ''c''
   \<and> buffer (WriteAll [''a\<newline>b\<newline>''] NewNoticeReceiver) = ''b\<newline>''
   \<and> calls (WriteAll [''a\<newline>b\<newline>''] NewNoticeReceiver) = [''a'']
   \<and> calls (snd (Write ''c'' (WriteAll [''a\<newline>b\<newline>''] NewNoticeReceiver))) = [''a'', ''b'']
   \<and> buffer (snd (Write ''c'' (WriteAll [''a\<newline>b\<newline>''] NewNoticeReceiver))) = ''c''"
  by (simp add: Write_def NewNoticeReceiver_def newline_def Let_def)

text \<open>
  Claim C8. For every chunk \<open>p\<close>, the empty chunk included, and every receiver state,
  \<open>Write\<close> returns \<open>(len(p), nil)\<close>.
\<close>

theorem Write_returns_len_nil:
  "fst (Write p receiver) = (int (length p), None)"
  by (simp add: Write_def Let_def)

text \<open>
  Claim C10. When the buffer, after \<open>Write\<close> has appended its chunk, starts with the
  delimiter, the callback is invoked with the empty byte sequence, and the bytes after the
  delimiter are kept.
\<close>

theorem Write_empty_record_dispatched:
  "buffer receiver @ p = newline # rest \<Longrightarrow>
     calls (snd (Write p receiver)) = calls receiver @ [[]]
     \<and> buffer (snd (Write p receiver)) = rest"
  using Write_first_record [of receiver p "[]" rest] by simp

theorem Write_empty_record_dispatched_witness:
  "buffer NewNoticeReceiver @ ''\<newline>x'' = newline # ''x''
   \<and> calls (snd (Write ''\<newline>x'' NewNoticeReceiver)) = calls NewNoticeReceiver @ [[]]
   \<and> buffer (snd (Write ''\<newline>x'' NewNoticeReceiver)) = ''x''"
proof -
  have h: "buffer NewNoticeReceiver @ ''\<newline>x'' = newline # ''x''"
    by (simp add: NewNoticeReceiver_def newline_def)
  show ?thesis
    using h Write_empty_record_dispatched [OF h] by simp
qed

end
